theory Spec2Isabelle
  imports Complex_Main "HOL-Library.AList" "HOL-Library.Product_Lexorder"
begin

section \<open>Values of the notebook\<close>

text \<open>
  The notebook \<^verbatim>\<open>01 - Data Validation with Voluptuous.ipynb\<close> loads a table of sales
  and runs three schemas over its rows. A row is the dict that
  \<^verbatim>\<open>sales.T.to_dict()\<close> yields for one record: column name to scalar. It is kept as
  the list of its items, in the order of the columns; the keys of a dict are distinct.

  The notebook calls three libraries: voluptuous (\<^verbatim>\<open>Schema\<close>, \<^verbatim>\<open>Required\<close>,
  \<^verbatim>\<open>All\<close>, \<^verbatim>\<open>Range\<close>, \<^verbatim>\<open>Invalid\<close>, \<^verbatim>\<open>MultipleInvalid\<close>), \<^verbatim>\<open>datetime\<close> and
  \<^verbatim>\<open>logging\<close>. What they do is written out below as far as the calls of the notebook
  reach it.

  A Python float is one of the finite values, the two infinities or NaN. A finite float
  is kept as the rational number it denotes; comparing two floats involves no rounding,
  so the comparisons below are exact.
\<close>

datatype pyfloat = Finite rat | PosInf | NegInf | NaN

text \<open>
  A naive \<^verbatim>\<open>datetime\<close>: year, month, day, hour, minute, second, microsecond. Python
  compares two naive datetimes field by field in this order.
\<close>

datatype datetime = Datetime nat nat nat nat nat nat nat

fun fields :: "datetime \<Rightarrow> nat \<times> nat \<times> nat \<times> nat \<times> nat \<times> nat \<times> nat" where
  "fields (Datetime y mo d h mi s us) = (y, mo, d, h, mi, s, us)"

definition datetime_le :: "datetime \<Rightarrow> datetime \<Rightarrow> bool" where
  "datetime_le a b = (fields a \<le> fields b)"

definition datetime_lt :: "datetime \<Rightarrow> datetime \<Rightarrow> bool" where
  "datetime_lt a b = (fields a < fields b)"

datatype pyval = PNone | PInt int | PFloat pyfloat | PStr string | PDatetime datetime

type_synonym sale = "(string \<times> pyval) list"

text \<open>
  \<^verbatim>\<open>v >= b\<close> and \<^verbatim>\<open>v <= b\<close> for a float \<open>v\<close> and a finite bound \<open>b\<close>. Every
  comparison with NaN is false.
\<close>

fun float_ge :: "pyfloat \<Rightarrow> rat \<Rightarrow> bool" where
  "float_ge (Finite x) b = (b \<le> x)"
| "float_ge PosInf b = True"
| "float_ge NegInf b = False"
| "float_ge NaN b = False"

fun float_le :: "pyfloat \<Rightarrow> rat \<Rightarrow> bool" where
  "float_le (Finite x) b = (x \<le> b)"
| "float_le PosInf b = False"
| "float_le NegInf b = True"
| "float_le NaN b = False"

text \<open>
  The same comparisons on any value; \<open>None\<close> is Python's \<^verbatim>\<open>TypeError\<close> for a value
  that has no order with a float.
\<close>

fun py_ge :: "pyval \<Rightarrow> rat \<Rightarrow> bool option" where
  "py_ge (PFloat f) b = Some (float_ge f b)"
| "py_ge (PInt i) b = Some (b \<le> of_int i)"
| "py_ge v b = None"

fun py_le :: "pyval \<Rightarrow> rat \<Rightarrow> bool option" where
  "py_le (PFloat f) b = Some (float_le f b)"
| "py_le (PInt i) b = Some (of_int i \<le> b)"
| "py_le v b = None"

section \<open>Exceptions\<close>

text \<open>
  A message is kept as its format string and the arguments of \<^verbatim>\<open>%\<close>, unformatted:
  \<^verbatim>\<open>'date is in the future! %s' % v\<close> is \<open>Msg ''date is in the future! %s'' [v]\<close>.
  An \<open>invalid\<close> is one voluptuous error: its class, its message and its path.
\<close>

datatype message = Msg string "pyval list"

datatype invalid_class = Invalid | TypeInvalid | ValueInvalid | RangeInvalid | RequiredFieldInvalid

datatype invalid = Inv invalid_class message "string list"

datatype exn =
    InvalidExn invalid
  | MultipleInvalid "invalid list"
  | ValueError
  | TypeError
  | AssertionError
  | KeyError string

fun prepend :: "string list \<Rightarrow> invalid \<Rightarrow> invalid" where
  "prepend p (Inv cls m path) = Inv cls m (p @ path)"

section \<open>The clock\<close>

text \<open>
  \<^verbatim>\<open>datetime.now()\<close> reads the wall clock. The clock is the sequence of the readings
  still to come: a call returns the first one and leaves the rest.
\<close>

type_synonym clock = "nat \<Rightarrow> datetime"

definition datetime_now :: "clock \<Rightarrow> datetime \<times> clock" where
  "datetime_now c = (c 0, \<lambda>n. c (Suc n))"

section \<open>Validators\<close>

text \<open>
  A validator takes a value and either returns the validated value or raises. It runs in
  the presence of the clock.
\<close>

type_synonym validator = "pyval \<Rightarrow> clock \<Rightarrow> (exn + pyval) \<times> clock"

text \<open>
  \<^verbatim>\<open>datetime.strptime\<close> on a \<^verbatim>\<open>str\<close> is library code; the theory takes its parsing
  function as a parameter \<open>P\<close>: \<open>P s fmt = Some d\<close> when \<open>s\<close> parses under \<open>fmt\<close> to
  \<open>d\<close>, \<open>None\<close> when it does not. A failed parse raises \<^verbatim>\<open>ValueError\<close>, an argument
  that is not a \<^verbatim>\<open>str\<close> raises \<^verbatim>\<open>TypeError\<close>.
\<close>

type_synonym strptime = "string \<Rightarrow> string \<Rightarrow> datetime option"

definition datetime_strptime :: "strptime \<Rightarrow> pyval \<Rightarrow> string \<Rightarrow> exn + datetime" where
  "datetime_strptime P v fmt =
     (case v of
        PStr s \<Rightarrow> (case P s fmt of Some d \<Rightarrow> Inr d | None \<Rightarrow> Inl ValueError)
      | _ \<Rightarrow> Inl TypeError)"

definition default_fmt :: string where
  "default_fmt = ''%Y-%m-%dT%H:%M:%S''"

text \<open>
  The first \<^verbatim>\<open>ValidDate\<close> of the notebook (format only):
  \<^verbatim>\<open>return lambda v: datetime.strptime(v, fmt)\<close>.
\<close>

definition ValidDate_format :: "strptime \<Rightarrow> string \<Rightarrow> validator" where
  "ValidDate_format P fmt v c =
     (case datetime_strptime P v fmt of
        Inl e \<Rightarrow> (Inl e, c)
      | Inr d \<Rightarrow> (Inr (PDatetime d), c))"

text \<open>
  The second \<^verbatim>\<open>ValidDate\<close> (sanity). The body of the \<^verbatim>\<open>try\<close> is the assertion
  \<^verbatim>\<open>assert datetime.strptime(v, fmt) <= datetime.now()\<close>: the left operand is
  evaluated first, so the clock is read only when the string has parsed. The handler
  turns \<^verbatim>\<open>AssertionError\<close>, and nothing else, into \<^verbatim>\<open>Invalid\<close>. The function has no
  \<^verbatim>\<open>return\<close>: it yields \<^verbatim>\<open>None\<close>.
\<close>

definition assert_not_future :: "strptime \<Rightarrow> string \<Rightarrow> validator" where
  "assert_not_future P fmt v c =
     (case datetime_strptime P v fmt of
        Inl e \<Rightarrow> (Inl e, c)
      | Inr d \<Rightarrow>
          (case datetime_now c of
             (now, c') \<Rightarrow> if datetime_le d now then (Inr PNone, c') else (Inl AssertionError, c')))"

definition ValidDate_sanity :: "strptime \<Rightarrow> string \<Rightarrow> validator" where
  "ValidDate_sanity P fmt v c =
     (case assert_not_future P fmt v c of
        (Inl AssertionError, c') \<Rightarrow>
          (Inl (InvalidExn (Inv Invalid (Msg ''date is in the future! %s'' [v]) [])), c')
      | r \<Rightarrow> r)"

text \<open>
  \<^verbatim>\<open>Range(min, max)\<close> of voluptuous, both bounds included:
  \<^verbatim>\<open>if not v >= self.min: raise RangeInvalid('value must be at least %s' % self.min)\<close>,
  then the same for \<^verbatim>\<open>max\<close>; a \<^verbatim>\<open>TypeError\<close> of the comparison becomes
  \<^verbatim>\<open>RangeInvalid\<close> too.
\<close>

definition range_invalid :: "message \<Rightarrow> exn" where
  "range_invalid m = InvalidExn (Inv RangeInvalid m [])"

definition Range_v :: "rat \<Rightarrow> rat \<Rightarrow> validator" where
  "Range_v mn mx v c =
     (case py_ge v mn of
        None \<Rightarrow> (Inl (range_invalid (Msg ''invalid value or type (must have a partial ordering)'' [])), c)
      | Some False \<Rightarrow> (Inl (range_invalid (Msg ''value must be at least %s'' [PFloat (Finite mn)])), c)
      | Some True \<Rightarrow>
          (case py_le v mx of
             None \<Rightarrow> (Inl (range_invalid (Msg ''invalid value or type (must have a partial ordering)'' [])), c)
           | Some False \<Rightarrow> (Inl (range_invalid (Msg ''value must be at most %s'' [PFloat (Finite mx)])), c)
           | Some True \<Rightarrow> (Inr v, c)))"

text \<open>
  How voluptuous compiles a scalar schema. A class (\<^verbatim>\<open>float\<close>) is an
  \<^verbatim>\<open>isinstance\<close> test. A callable is called; its \<^verbatim>\<open>ValueError\<close> is trapped as
  \<^verbatim>\<open>ValueInvalid('not a valid value')\<close>, its \<^verbatim>\<open>Invalid\<close> gets the path prepended,
  and every other exception passes through.
\<close>

definition validate_instance_float :: "string list \<Rightarrow> validator" where
  "validate_instance_float path data c =
     (case data of
        PFloat f \<Rightarrow> (Inr data, c)
      | _ \<Rightarrow> (Inl (InvalidExn (Inv TypeInvalid (Msg ''expected float'' []) path)), c))"

definition validate_callable :: "validator \<Rightarrow> string list \<Rightarrow> validator" where
  "validate_callable f path data c =
     (case f data c of
        (Inl ValueError, c') \<Rightarrow>
          (Inl (InvalidExn (Inv ValueInvalid (Msg ''not a valid value'' []) path)), c')
      | (Inl (InvalidExn e), c') \<Rightarrow> (Inl (InvalidExn (prepend path e)), c')
      | (Inl (MultipleInvalid es), c') \<Rightarrow> (Inl (MultipleInvalid (map (prepend path) es)), c')
      | r \<Rightarrow> r)"

text \<open>
  \<^verbatim>\<open>All(v1, ..., vn)\<close>: the compiled validators run in order, each on the value the
  previous one returned; the first exception ends the chain.
\<close>

fun All_exec :: "validator list \<Rightarrow> validator" where
  "All_exec [] v c = (Inr v, c)"
| "All_exec (f # fs) v c =
     (case f v c of
        (Inl e, c') \<Rightarrow> (Inl e, c')
      | (Inr v', c') \<Rightarrow> All_exec fs v' c')"

definition All_v :: "(string list \<Rightarrow> validator) list \<Rightarrow> string list \<Rightarrow> validator" where
  "All_v vs path = All_exec (map (\<lambda>v. v path) vs)"

section \<open>Schemas\<close>

datatype extra = PREVENT_EXTRA | ALLOW_EXTRA | REMOVE_EXTRA

text \<open>
  A schema \<^verbatim>\<open>Schema({Required(k): rule}, extra=ex)\<close> on a dict. voluptuous walks the
  items of the dict. The item under \<open>k\<close> is validated by the rule: its errors are
  collected, any other exception leaves at once, and \<open>k\<close> is struck from the required
  keys either way. Any other item is an extra key: copied under \<open>ALLOW_EXTRA\<close>, dropped
  under \<open>REMOVE_EXTRA\<close>, an error otherwise. After the walk every required key still
  missing adds \<^verbatim>\<open>RequiredFieldInvalid\<close>, and the collected errors, if any, are raised
  as one \<^verbatim>\<open>MultipleInvalid\<close>.
\<close>

definition finish :: "sale \<Rightarrow> invalid list \<Rightarrow> string list \<Rightarrow> exn + sale" where
  "finish out errors required_keys =
     (let errors' = errors @
            map (\<lambda>key. Inv RequiredFieldInvalid (Msg ''required key not provided'' []) [key])
              required_keys
      in if errors' = [] then Inr out else Inl (MultipleInvalid errors'))"

fun validate_mapping ::
  "string \<Rightarrow> (string list \<Rightarrow> validator) \<Rightarrow> extra \<Rightarrow> sale \<Rightarrow> sale \<Rightarrow> invalid list \<Rightarrow> string list
     \<Rightarrow> clock \<Rightarrow> (exn + sale) \<times> clock" where
  "validate_mapping k cvalue ex [] out errors required_keys c =
     (finish out errors required_keys, c)"
| "validate_mapping k cvalue ex ((key, val) # items) out errors required_keys c =
     (if key = k then
        (case cvalue [key] val c of
           (Inr cval, c') \<Rightarrow>
             validate_mapping k cvalue ex items (AList.update key cval out) errors
               (removeAll k required_keys) c'
         | (Inl (MultipleInvalid es), c') \<Rightarrow>
             validate_mapping k cvalue ex items out (errors @ es) (removeAll k required_keys) c'
         | (Inl (InvalidExn e), c') \<Rightarrow>
             validate_mapping k cvalue ex items out (errors @ [e]) (removeAll k required_keys) c'
         | (Inl e, c') \<Rightarrow> (Inl e, c'))
      else if ex = ALLOW_EXTRA then
        validate_mapping k cvalue ex items (AList.update key val out) errors required_keys c
      else if ex \<noteq> REMOVE_EXTRA then
        validate_mapping k cvalue ex items out
          (errors @ [Inv Invalid (Msg ''extra keys not allowed'' []) [key]]) required_keys c
      else validate_mapping k cvalue ex items out errors required_keys c)"

text \<open>
  Calling the schema: \<^verbatim>\<open>MultipleInvalid\<close> is re-raised, a single \<^verbatim>\<open>Invalid\<close> is wrapped
  into one, anything else propagates.
\<close>

definition Schema ::
  "string \<Rightarrow> (string list \<Rightarrow> validator) \<Rightarrow> extra \<Rightarrow> sale \<Rightarrow> clock \<Rightarrow> (exn + sale) \<times> clock" where
  "Schema k rule ex data c =
     (case validate_mapping k rule ex data [] [] [k] c of
        (Inl (InvalidExn e), c') \<Rightarrow> (Inl (MultipleInvalid [e]), c')
      | r \<Rightarrow> r)"

text \<open>
  The float literals of the first schema. \<^verbatim>\<open>2.50\<close> is exactly \<open>5/2\<close>; \<^verbatim>\<open>1450.99\<close> is
  the double nearest to it, \<open>6381521507146793 / 2^42\<close>.
\<close>

definition lit_2_50 :: rat where
  "lit_2_50 = 5 / 2"

definition lit_1450_99 :: rat where
  "lit_1450_99 = 6381521507146793 / 4398046511104"

text \<open>
  The notebook assigns the name \<^verbatim>\<open>schema\<close> three times; the three schemas are kept
  apart here by a suffix.
\<close>

definition sale_amount_rule :: "string list \<Rightarrow> validator" where
  "sale_amount_rule = All_v [validate_instance_float, validate_callable (Range_v lit_2_50 lit_1450_99)]"

definition schema_sale_amount :: "sale \<Rightarrow> clock \<Rightarrow> (exn + sale) \<times> clock" where
  "schema_sale_amount = Schema ''sale_amount'' sale_amount_rule ALLOW_EXTRA"

definition schema_timestamp_format :: "strptime \<Rightarrow> sale \<Rightarrow> clock \<Rightarrow> (exn + sale) \<times> clock" where
  "schema_timestamp_format P =
     Schema ''timestamp'' (All_v [validate_callable (ValidDate_format P default_fmt)]) ALLOW_EXTRA"

definition schema_timestamp_sanity :: "strptime \<Rightarrow> sale \<Rightarrow> clock \<Rightarrow> (exn + sale) \<times> clock" where
  "schema_timestamp_sanity P =
     Schema ''timestamp'' (All_v [validate_callable (ValidDate_sanity P default_fmt)]) ALLOW_EXTRA"

section \<open>The validation loops\<close>

text \<open>
  What a loop reads and writes: the table, the counter, the warnings logged so far and
  the clock. \<^verbatim>\<open>logging.warning(fmt, s_id, value, e)\<close> adds one record of level
  \<^verbatim>\<open>WARNING\<close> holding the format string and its three arguments.
\<close>

datatype level = DEBUG | INFO | WARNING | ERROR | CRITICAL

record log_record =
  levelname :: level
  msg_fmt :: string
  arg_id :: int
  arg_value :: pyval
  arg_error :: exn

record world =
  sales :: "sale list"
  error_count :: int
  warnings :: "log_record list"
  clock :: clock

definition logging_warning :: "string \<Rightarrow> int \<Rightarrow> pyval \<Rightarrow> exn \<Rightarrow> world \<Rightarrow> world" where
  "logging_warning fmt s_id v e w =
     w\<lparr>warnings := warnings w @
         [\<lparr>levelname = WARNING, msg_fmt = fmt, arg_id = s_id, arg_value = v, arg_error = e\<rparr>]\<rparr>"

text \<open>
  \<^verbatim>\<open>sales.T.to_dict().items()\<close>: the rows with their index labels; \<^verbatim>\<open>read_csv\<close> labels
  the rows \<open>0, 1, 2, ...\<close>.
\<close>

definition to_dict_items :: "sale list \<Rightarrow> (int \<times> sale) list" where
  "to_dict_items tbl = zip (map int [0..<length tbl]) tbl"

text \<open>
  One turn of the loop:
  \<^verbatim>\<open>
  try:
      schema(sale)
  except MultipleInvalid as e:
      logging.warning('issue with sale: %s (%s) - %s', s_id, sale[field], e)
      error_count += 1
  \<close>
  The handler reads \<^verbatim>\<open>sale[field]\<close>, which raises \<^verbatim>\<open>KeyError\<close> when the row has no
  such key. An exception that is not \<^verbatim>\<open>MultipleInvalid\<close> is not caught.
\<close>

definition loop_body ::
  "(sale \<Rightarrow> clock \<Rightarrow> (exn + sale) \<times> clock) \<Rightarrow> string \<Rightarrow> int \<Rightarrow> sale \<Rightarrow> world \<Rightarrow> (exn + unit) \<times> world" where
  "loop_body schema field s_id sale w =
     (case schema sale (clock w) of
        (Inr out, c') \<Rightarrow> (Inr (), w\<lparr>clock := c'\<rparr>)
      | (Inl (MultipleInvalid es), c') \<Rightarrow>
          (case map_of sale field of
             None \<Rightarrow> (Inl (KeyError field), w\<lparr>clock := c'\<rparr>)
           | Some v \<Rightarrow>
               (let w1 = logging_warning ''issue with sale: %s (%s) - %s'' s_id v (MultipleInvalid es)
                           (w\<lparr>clock := c'\<rparr>)
                in (Inr (), w1\<lparr>error_count := error_count w1 + 1\<rparr>)))
      | (Inl e, c') \<Rightarrow> (Inl e, w\<lparr>clock := c'\<rparr>))"

fun for_sales ::
  "(sale \<Rightarrow> clock \<Rightarrow> (exn + sale) \<times> clock) \<Rightarrow> string \<Rightarrow> (int \<times> sale) list \<Rightarrow> world \<Rightarrow> (exn + unit) \<times> world" where
  "for_sales schema field [] w = (Inr (), w)"
| "for_sales schema field ((s_id, sale) # rest) w =
     (case loop_body schema field s_id sale w of
        (Inl e, w') \<Rightarrow> (Inl e, w')
      | (Inr u, w') \<Rightarrow> for_sales schema field rest w')"

text \<open>The three loop cells; each starts with \<^verbatim>\<open>error_count = 0\<close>.\<close>

definition run_loop ::
  "(sale \<Rightarrow> clock \<Rightarrow> (exn + sale) \<times> clock) \<Rightarrow> string \<Rightarrow> world \<Rightarrow> (exn + unit) \<times> world" where
  "run_loop schema field w =
     for_sales schema field (to_dict_items (sales w)) (w\<lparr>error_count := 0\<rparr>)"

definition loop_sale_amount :: "world \<Rightarrow> (exn + unit) \<times> world" where
  "loop_sale_amount = run_loop schema_sale_amount ''sale_amount''"

definition loop_timestamp_format :: "strptime \<Rightarrow> world \<Rightarrow> (exn + unit) \<times> world" where
  "loop_timestamp_format P = run_loop (schema_timestamp_format P) ''timestamp''"

definition loop_timestamp_sanity :: "strptime \<Rightarrow> world \<Rightarrow> (exn + unit) \<times> world" where
  "loop_timestamp_sanity P = run_loop (schema_timestamp_sanity P) ''timestamp''"

section \<open>The rules in the words of the specification\<close>

text \<open>
  The range rule as the specification words it: the value is a floating-point number
  within the inclusive interval \<open>[2.50, 1450.99]\<close>, the bounds being the two float
  literals. NaN and the infinities are floats outside the interval.
\<close>

fun in_interval :: "pyfloat \<Rightarrow> bool" where
  "in_interval (Finite x) = (lit_2_50 \<le> x \<and> x \<le> lit_1450_99)"
| "in_interval PosInf = False"
| "in_interval NegInf = False"
| "in_interval NaN = False"

definition satisfies_range_rule :: "sale \<Rightarrow> bool" where
  "satisfies_range_rule sale =
     (case map_of sale ''sale_amount'' of
        Some (PFloat f) \<Rightarrow> in_interval f
      | _ \<Rightarrow> False)"

section \<open>Auxiliary definitions\<close>

text \<open>The output dict after the items of a dict have been copied into it one by one.\<close>

definition copy_items :: "sale \<Rightarrow> sale \<Rightarrow> sale" where
  "copy_items items out = fold (\<lambda>(key, v). AList.update key v) items out"

text \<open>
  An instance of the parameter \<open>P\<close> for the worked examples. It agrees with
  \<^verbatim>\<open>datetime.strptime\<close> on the strings the examples use: two timestamps in the
  configured format, and strings that are no timestamps at all.
\<close>

definition strptime_example :: strptime where
  "strptime_example s fmt =
     (if fmt = default_fmt \<and> s = ''2017-06-01T12:00:00'' then Some (Datetime 2017 6 1 12 0 0 0)
      else if fmt = default_fmt \<and> s = ''2999-01-01T00:00:00'' then Some (Datetime 2999 1 1 0 0 0 0)
      else None)"

text \<open>A clock that shows the same time at every reading, and a notebook before a loop runs.\<close>

definition frozen_clock :: "datetime \<Rightarrow> clock" where
  "frozen_clock d = (\<lambda>n. d)"

definition notebook :: "sale list \<Rightarrow> clock \<Rightarrow> world" where
  "notebook tbl c = \<lparr>sales = tbl, error_count = 0, warnings = [], clock = c\<rparr>"

text \<open>
  The rows, the table, the time and the clock of the worked examples: a valid sale, a
  sale of 1.00 dated in 2999, a sale of 2000.00 whose timestamp is no date, a row with
  columns the schemas do not name, rows of tables that lack a column, and a row whose
  timestamp cell was empty (\<^verbatim>\<open>read_csv\<close> gives NaN).
\<close>

definition sale_500 :: sale where
  "sale_500 = [(''sale_amount'', PFloat (Finite 500)), (''timestamp'', PStr ''2017-06-01T12:00:00'')]"

definition sale_1_future :: sale where
  "sale_1_future = [(''sale_amount'', PFloat (Finite 1)), (''timestamp'', PStr ''2999-01-01T00:00:00'')]"

definition sale_2000_no_date :: sale where
  "sale_2000_no_date = [(''sale_amount'', PFloat (Finite 2000)), (''timestamp'', PStr ''yesterday'')]"

definition example_table :: "sale list" where
  "example_table = [sale_500, sale_1_future, sale_2000_no_date]"

definition sale_extra :: sale where
  "sale_extra =
     [(''customer'', PStr ''x''), (''sale_amount'', PFloat (Finite 500)), (''quantity'', PInt (- 3)),
      (''timestamp'', PStr ''2017-06-01T12:00:00''), (''note'', PNone)]"

definition sale_no_amount :: sale where
  "sale_no_amount = [(''timestamp'', PStr ''2017-06-01T12:00:00'')]"

definition sale_no_timestamp :: sale where
  "sale_no_timestamp = [(''sale_amount'', PFloat (Finite 500))]"

definition sale_nan_timestamp :: sale where
  "sale_nan_timestamp = [(''sale_amount'', PFloat (Finite 500)), (''timestamp'', PFloat NaN)]"

definition july_2017 :: datetime where
  "july_2017 = Datetime 2017 7 1 0 0 0 0"

definition year_3000 :: datetime where
  "year_3000 = Datetime 3000 1 1 0 0 0 0"

definition clock_then :: "datetime \<Rightarrow> clock \<Rightarrow> clock" where
  "clock_then d c = (\<lambda>n. case n of 0 \<Rightarrow> d | Suc m \<Rightarrow> c m)"

section \<open>Properties of the schemas and of the loops\<close>

lemma copy_items_Nil [simp]: "copy_items [] out = out"
  by (simp add: copy_items_def)

lemma copy_items_Cons [simp]: "copy_items ((key, v) # items) out = copy_items items (AList.update key v out)"
  by (simp add: copy_items_def)

lemma update_fresh: "k \<notin> fst ` set out \<Longrightarrow> AList.update k v out = out @ [(k, v)]"
  by (induction out) auto

lemma copy_items_distinct: "distinct (map fst (out @ items)) \<Longrightarrow> copy_items items out = out @ items"
proof (induction items arbitrary: out)
  case Nil
  then show ?case by simp
next
  case (Cons p items)
  obtain key v where p: "p = (key, v)" by (cases p)
  from Cons.prems have fresh: "key \<notin> fst ` set out" by (auto simp: p)
  from Cons.prems have "distinct (map fst ((out @ [(key, v)]) @ items))" by (auto simp: p)
  from Cons.IH [OF this] fresh show ?case by (simp add: p update_fresh)
qed

lemma vm_no_key:
  "k \<notin> fst ` set items \<Longrightarrow>
   validate_mapping k cv ALLOW_EXTRA items out errs req c = (finish (copy_items items out) errs req, c)"
  by (induction items arbitrary: out) auto

lemma vm_key:
  "distinct (map fst items) \<Longrightarrow> map_of items k = Some v \<Longrightarrow>
   validate_mapping k cv ALLOW_EXTRA items out errs req c =
     (case cv [k] v c of
        (Inr cval, c') \<Rightarrow> (finish (copy_items (AList.update k cval items) out) errs (removeAll k req), c')
      | (Inl (MultipleInvalid es), c') \<Rightarrow>
          (finish (copy_items (AList.delete k items) out) (errs @ es) (removeAll k req), c')
      | (Inl (InvalidExn e), c') \<Rightarrow>
          (finish (copy_items (AList.delete k items) out) (errs @ [e]) (removeAll k req), c')
      | (Inl e, c') \<Rightarrow> (Inl e, c'))"
proof (induction items arbitrary: out)
  case Nil
  then show ?case by simp
next
  case (Cons p items)
  obtain key val where p: "p = (key, val)" by (cases p)
  show ?case
  proof (cases "key = k")
    case True
    with Cons.prems have v: "val = v" and fresh: "k \<notin> fst ` set items"
      by (auto simp: p)
    from fresh have del: "AList.delete k items = items"
      by simp
    show ?thesis
      by (simp add: p True v vm_no_key [OF fresh] del split: prod.splits sum.splits exn.splits)
  next
    case False
    with Cons.prems have "distinct (map fst items)" "map_of items k = Some v"
      by (auto simp: p)
    from Cons.IH [OF this] False show ?thesis
      by (simp add: p split: prod.splits sum.splits exn.splits)
  qed
qed

lemma finish_Nil [simp]: "finish out [] [] = Inr out"
  by (simp add: finish_def)

lemma finish_errors [simp]: "errs \<noteq> [] \<Longrightarrow> finish out errs req = Inl (MultipleInvalid (errs @
   map (\<lambda>key. Inv RequiredFieldInvalid (Msg ''required key not provided'' []) [key]) req))"
  by (simp add: finish_def)

lemma update_present:
  "distinct (map fst items) \<Longrightarrow> map_of items k = Some v \<Longrightarrow> AList.update k v items = items"
  by (induction items) (auto simp: rev_image_eqI)

lemma Schema_no_key:
  assumes "map_of data k = None"
  shows "Schema k rule ALLOW_EXTRA data c =
           (Inl (MultipleInvalid [Inv RequiredFieldInvalid (Msg ''required key not provided'' []) [k]]), c)"
proof -
  from assms have "k \<notin> fst ` set data" by (simp add: map_of_eq_None_iff)
  then show ?thesis by (simp add: Schema_def vm_no_key finish_def)
qed

lemma Schema_key:
  assumes "distinct (map fst data)" and "map_of data k = Some v"
  shows "Schema k rule ALLOW_EXTRA data c =
     (case rule [k] v c of
        (Inr cval, c') \<Rightarrow> (Inr (AList.update k cval data), c')
      | (Inl (MultipleInvalid es), c') \<Rightarrow> (finish (AList.delete k data) es [], c')
      | (Inl (InvalidExn e), c') \<Rightarrow> (Inl (MultipleInvalid [e]), c')
      | (Inl e, c') \<Rightarrow> (Inl e, c'))"
proof -
  have d1: "\<And>cval. copy_items (AList.update k cval data) [] = AList.update k cval data"
    using assms(1) by (simp add: copy_items_distinct distinct_update)
  have d2: "copy_items (AList.delete k data) [] = AList.delete k data"
    using assms(1) by (simp add: copy_items_distinct distinct_delete)
  show ?thesis
    by (simp add: Schema_def vm_key [OF assms] d1 d2 finish_def
             split: prod.splits sum.splits exn.splits)
qed

lemma sale_amount_rule_eq:
  "sale_amount_rule path v c =
     (case v of
        PFloat f \<Rightarrow>
          (if \<not> float_ge f lit_2_50 then
             (Inl (InvalidExn (Inv RangeInvalid (Msg ''value must be at least %s'' [PFloat (Finite lit_2_50)]) path)), c)
           else if \<not> float_le f lit_1450_99 then
             (Inl (InvalidExn (Inv RangeInvalid (Msg ''value must be at most %s'' [PFloat (Finite lit_1450_99)]) path)), c)
           else (Inr (PFloat f), c))
      | _ \<Rightarrow> (Inl (InvalidExn (Inv TypeInvalid (Msg ''expected float'' []) path)), c))"
  by (cases v)
     (simp_all add: sale_amount_rule_def All_v_def validate_instance_float_def validate_callable_def
        Range_v_def range_invalid_def)

lemma format_rule_eq:
  "All_v [validate_callable (ValidDate_format P fmt)] path v c =
     (case v of
        PStr s \<Rightarrow>
          (case P s fmt of
             Some d \<Rightarrow> (Inr (PDatetime d), c)
           | None \<Rightarrow> (Inl (InvalidExn (Inv ValueInvalid (Msg ''not a valid value'' []) path)), c))
      | _ \<Rightarrow> (Inl TypeError, c))"
  by (cases v)
     (simp_all add: All_v_def validate_callable_def ValidDate_format_def datetime_strptime_def
        split: option.splits)

lemma ValidDate_sanity_eq:
  "ValidDate_sanity P fmt v c =
     (case v of
        PStr s \<Rightarrow>
          (case P s fmt of
             Some d \<Rightarrow>
               (if datetime_le d (c 0) then (Inr PNone, \<lambda>n. c (Suc n))
                else (Inl (InvalidExn (Inv Invalid (Msg ''date is in the future! %s'' [PStr s]) [])),
                      \<lambda>n. c (Suc n)))
           | None \<Rightarrow> (Inl ValueError, c))
      | _ \<Rightarrow> (Inl TypeError, c))"
  by (cases v)
     (simp_all add: ValidDate_sanity_def assert_not_future_def datetime_strptime_def datetime_now_def
        split: option.splits)

lemma sanity_rule_eq:
  "All_v [validate_callable (ValidDate_sanity P fmt)] path v c =
     (case v of
        PStr s \<Rightarrow>
          (case P s fmt of
             Some d \<Rightarrow>
               (if datetime_le d (c 0) then (Inr PNone, \<lambda>n. c (Suc n))
                else (Inl (InvalidExn (Inv Invalid (Msg ''date is in the future! %s'' [PStr s]) path)),
                      \<lambda>n. c (Suc n)))
           | None \<Rightarrow> (Inl (InvalidExn (Inv ValueInvalid (Msg ''not a valid value'' []) path)), c))
      | _ \<Rightarrow> (Inl TypeError, c))"
  by (cases v)
     (simp_all add: All_v_def validate_callable_def ValidDate_sanity_eq split: option.splits)

lemma not_datetime_le: "(\<not> datetime_le a b) = datetime_lt b a"
  by (simp add: datetime_le_def datetime_lt_def not_le)

lemma sales_loop_body: "sales (snd (loop_body schema field s_id sale w)) = sales w"
  by (simp add: loop_body_def logging_warning_def Let_def
        split: prod.splits sum.splits exn.splits option.splits)

lemma sales_for_sales: "sales (snd (for_sales schema field items w)) = sales w"
proof (induction items arbitrary: w)
  case Nil
  then show ?case by simp
next
  case (Cons p items)
  obtain s_id sale where p: "p = (s_id, sale)" by (cases p)
  obtain r w' where b: "loop_body schema field s_id sale w = (r, w')"
    by (cases "loop_body schema field s_id sale w")
  have "sales w' = sales w" using sales_loop_body [of schema field s_id sale w] by (simp add: b)
  then show ?case using Cons.IH [of w'] by (cases r) (simp_all add: p b)
qed

lemma sales_run_loop: "sales (snd (run_loop schema field w)) = sales w"
  by (simp add: run_loop_def sales_for_sales)

text \<open>What one turn of the loop does, by the outcome of the schema.\<close>

lemma loop_body_pass:
  assumes "schema sale (clock w) = (Inr out, c')"
  shows "loop_body schema field s_id sale w = (Inr (), w\<lparr>clock := c'\<rparr>)"
  using assms by (simp add: loop_body_def)

lemma loop_body_failure:
  assumes "schema sale (clock w) = (Inl (MultipleInvalid es), c')" and "map_of sale field = Some v"
  shows "loop_body schema field s_id sale w =
           (Inr (), w\<lparr>clock := c',
                       warnings := warnings w @
                         [\<lparr>levelname = WARNING, msg_fmt = ''issue with sale: %s (%s) - %s'',
                           arg_id = s_id, arg_value = v, arg_error = MultipleInvalid es\<rparr>],
                       error_count := error_count w + 1\<rparr>)"
  using assms by (simp add: loop_body_def logging_warning_def)

lemma loop_body_missing_field:
  assumes "schema sale (clock w) = (Inl (MultipleInvalid es), c')" and "map_of sale field = None"
  shows "loop_body schema field s_id sale w = (Inl (KeyError field), w\<lparr>clock := c'\<rparr>)"
  using assms by (simp add: loop_body_def)

lemma loop_body_uncaught:
  assumes "schema sale (clock w) = (Inl e, c')" and "\<forall>es. e \<noteq> MultipleInvalid es"
  shows "loop_body schema field s_id sale w = (Inl e, w\<lparr>clock := c'\<rparr>)"
  using assms by (cases e) (simp_all add: loop_body_def)

lemma in_interval_iff: "in_interval f = (float_ge f lit_2_50 \<and> float_le f lit_1450_99)"
  by (cases f) simp_all

lemma schema_sale_amount_ok:
  assumes "distinct (map fst sale)" and "map_of sale ''sale_amount'' = Some (PFloat f)"
    and "in_interval f"
  shows "schema_sale_amount sale c = (Inr sale, c)"
  using assms(3)
  by (simp add: schema_sale_amount_def Schema_key [OF assms(1,2)] sale_amount_rule_eq
        in_interval_iff update_present [OF assms(1,2)])

lemma schema_sale_amount_fail:
  assumes "distinct (map fst sale)" and "map_of sale ''sale_amount'' = Some v"
    and "\<not> satisfies_range_rule sale"
  shows "\<exists>e. schema_sale_amount sale c = (Inl (MultipleInvalid [e]), c)"
  using assms(3)
  by (cases v)
     (simp_all add: schema_sale_amount_def Schema_key [OF assms(1,2)] sale_amount_rule_eq
        in_interval_iff satisfies_range_rule_def assms(2))

lemma loop_body_sale_amount:
  assumes "distinct (map fst sale)" and "map_of sale ''sale_amount'' = Some v"
  shows "fst (loop_body schema_sale_amount ''sale_amount'' s_id sale w) = Inr () \<and>
         error_count (snd (loop_body schema_sale_amount ''sale_amount'' s_id sale w)) =
           error_count w + (if satisfies_range_rule sale then 0 else 1)"
proof (cases "satisfies_range_rule sale")
  case True
  then obtain f where f: "v = PFloat f" "in_interval f"
    using assms(2) by (auto simp: satisfies_range_rule_def split: pyval.splits)
  from schema_sale_amount_ok [OF assms(1) assms(2) [unfolded f(1)] f(2)] True
  show ?thesis by (simp add: loop_body_def)
next
  case False
  from schema_sale_amount_fail [OF assms False] obtain e
    where "schema_sale_amount sale (clock w) = (Inl (MultipleInvalid [e]), clock w)" by blast
  with False assms(2) show ?thesis
    by (simp add: loop_body_def logging_warning_def Let_def)
qed

lemma for_sales_sale_amount:
  assumes "\<forall>p \<in> set items. distinct (map fst (snd p)) \<and> map_of (snd p) ''sale_amount'' \<noteq> None"
  shows "fst (for_sales schema_sale_amount ''sale_amount'' items w) = Inr () \<and>
         error_count (snd (for_sales schema_sale_amount ''sale_amount'' items w)) =
           error_count w + int (length (filter (\<lambda>sale. \<not> satisfies_range_rule sale) (map snd items)))"
  using assms
proof (induction items arbitrary: w)
  case Nil
  then show ?case by simp
next
  case (Cons p items)
  obtain s_id sale where p: "p = (s_id, sale)" by (cases p)
  from Cons.prems obtain v where wf: "distinct (map fst sale)" and v: "map_of sale ''sale_amount'' = Some v"
    by (auto simp: p)
  obtain r w' where b: "loop_body schema_sale_amount ''sale_amount'' s_id sale w = (r, w')"
    by (cases "loop_body schema_sale_amount ''sale_amount'' s_id sale w")
  from loop_body_sale_amount [OF wf v, of s_id w] b
  have r: "r = Inr ()" and cnt: "error_count w' = error_count w + (if satisfies_range_rule sale then 0 else 1)"
    by simp_all
  from Cons.prems have "\<forall>p \<in> set items. distinct (map fst (snd p)) \<and> map_of (snd p) ''sale_amount'' \<noteq> None"
    by (meson list.set_intros(2))
  from Cons.IH [OF this, of w'] show ?case
    by (simp add: p b r cnt)
qed

lemma map_snd_to_dict_items: "map snd (to_dict_items tbl) = tbl"
  by (simp add: to_dict_items_def)

lemma set_to_dict_items: "p \<in> set (to_dict_items tbl) \<Longrightarrow> snd p \<in> set tbl"
  by (metis map_snd_to_dict_items image_eqI set_map)

lemma schema_timestamp_format_eq:
  assumes "distinct (map fst sale)" and "map_of sale ''timestamp'' = Some (PStr s)"
  shows "schema_timestamp_format P sale c =
     (case P s default_fmt of
        Some d \<Rightarrow> (Inr (AList.update ''timestamp'' (PDatetime d) sale), c)
      | None \<Rightarrow> (Inl (MultipleInvalid [Inv ValueInvalid (Msg ''not a valid value'' []) [''timestamp'']]), c))"
  by (simp add: schema_timestamp_format_def Schema_key [OF assms] format_rule_eq split: option.splits)

lemma schema_timestamp_sanity_eq:
  assumes "distinct (map fst sale)" and "map_of sale ''timestamp'' = Some (PStr s)"
  shows "schema_timestamp_sanity P sale c =
     (case P s default_fmt of
        Some d \<Rightarrow>
          (if datetime_le d (c 0) then (Inr (AList.update ''timestamp'' PNone sale), \<lambda>n. c (Suc n))
           else (Inl (MultipleInvalid
                   [Inv Invalid (Msg ''date is in the future! %s'' [PStr s]) [''timestamp'']]),
                 \<lambda>n. c (Suc n)))
      | None \<Rightarrow> (Inl (MultipleInvalid [Inv ValueInvalid (Msg ''not a valid value'' []) [''timestamp'']]), c))"
  by (simp add: schema_timestamp_sanity_def Schema_key [OF assms] sanity_rule_eq split: option.splits)

lemma schema_sanity_first_reading:
  assumes "distinct (map fst sale)" and "c1 0 = c2 0"
  shows "fst (schema_timestamp_sanity P sale c1) = fst (schema_timestamp_sanity P sale c2)"
proof (cases "map_of sale ''timestamp''")
  case None
  then show ?thesis by (simp add: schema_timestamp_sanity_def Schema_no_key)
next
  case (Some v)
  show ?thesis
    using assms(2)
    by (cases v)
       (simp_all add: schema_timestamp_sanity_def Schema_key [OF assms(1) Some] sanity_rule_eq
          split: option.splits)
qed

text \<open>
  The flag matters: without \<^verbatim>\<open>ALLOW_EXTRA\<close> the same rule rejects a row for the column
  it does not name.
\<close>

lemma prevent_extra_rejects_extra_field:
  "fst (Schema ''sale_amount'' sale_amount_rule PREVENT_EXTRA sale_500 c) =
     Inl (MultipleInvalid [Inv Invalid (Msg ''extra keys not allowed'' []) [''timestamp'']])"
  by (simp add: Schema_def sale_amount_rule_eq finish_def lit_2_50_def lit_1450_99_def sale_500_def)

section \<open>The properties of the specification\<close>

text \<open>
  C1. For every row whose \<^verbatim>\<open>sale_amount\<close> is a float within the inclusive interval
  \<open>[2.50, 1450.99]\<close>, the schema reports no failure and the loop counts nothing; for
  every row whose \<^verbatim>\<open>sale_amount\<close> is a float outside the interval, the schema reports
  a failure and the loop counts it.
\<close>

theorem sale_amount_range_rule:
  assumes "distinct (map fst sale)" and "map_of sale ''sale_amount'' = Some (PFloat f)"
  shows "(in_interval f \<longrightarrow>
            fst (schema_sale_amount sale c) = Inr sale \<and>
            loop_body schema_sale_amount ''sale_amount'' s_id sale w = (Inr (), w))
       \<and> (\<not> in_interval f \<longrightarrow>
            (\<exists>e. fst (schema_sale_amount sale c) = Inl (MultipleInvalid [e])) \<and>
            fst (loop_body schema_sale_amount ''sale_amount'' s_id sale w) = Inr () \<and>
            error_count (snd (loop_body schema_sale_amount ''sale_amount'' s_id sale w)) =
              error_count w + 1)"
proof (intro conjI impI)
  assume ok: "in_interval f"
  show "fst (schema_sale_amount sale c) = Inr sale"
    by (simp add: schema_sale_amount_ok [OF assms ok])
  show "loop_body schema_sale_amount ''sale_amount'' s_id sale w = (Inr (), w)"
    by (simp add: loop_body_def schema_sale_amount_ok [OF assms ok])
next
  assume bad: "\<not> in_interval f"
  then have ns: "\<not> satisfies_range_rule sale"
    by (simp add: satisfies_range_rule_def assms(2))
  from schema_sale_amount_fail [OF assms ns, of c]
  show "\<exists>e. fst (schema_sale_amount sale c) = Inl (MultipleInvalid [e])" by auto
  from loop_body_sale_amount [OF assms, of s_id w] ns
  show "fst (loop_body schema_sale_amount ''sale_amount'' s_id sale w) = Inr ()"
    and "error_count (snd (loop_body schema_sale_amount ''sale_amount'' s_id sale w)) =
              error_count w + 1"
    by simp_all
qed

theorem sale_amount_range_rule_witness:
  "in_interval (Finite 500) \<and>
   fst (schema_sale_amount sale_500 (frozen_clock july_2017)) = Inr sale_500 \<and>
   \<not> in_interval (Finite 1) \<and>
   error_count (snd (loop_body schema_sale_amount ''sale_amount'' 0 sale_1_future
        (notebook [] (frozen_clock july_2017)))) = 1"
  using sale_amount_range_rule [of sale_500 "Finite 500" "frozen_clock july_2017" 0
          "notebook [] (frozen_clock july_2017)"]
        sale_amount_range_rule [of sale_1_future "Finite 1" "frozen_clock july_2017" 0
          "notebook [] (frozen_clock july_2017)"]
  by (simp add: lit_2_50_def lit_1450_99_def notebook_def sale_500_def sale_1_future_def)

text \<open>
  C2. For every row whose \<^verbatim>\<open>timestamp\<close> string parses under the configured format, the
  date-sanity rule fails with the future-date message exactly when the parsed date is
  strictly after the current time, and passes when it is at or before it. The current
  time is not an argument of the rule: \<^verbatim>\<open>validation_func\<close> calls
  \<^verbatim>\<open>datetime.now()\<close> itself, so the current time is the reading the wall clock shows
  at that call, and the call uses that reading up: one reading of the clock for each
  row that parses.
\<close>

theorem future_date_rule:
  assumes "distinct (map fst sale)" and "map_of sale ''timestamp'' = Some (PStr s)"
    and "P s default_fmt = Some d"
  shows "(fst (ValidDate_sanity P default_fmt (PStr s) c) =
            Inl (InvalidExn (Inv Invalid (Msg ''date is in the future! %s'' [PStr s]) [])))
           = datetime_lt (c 0) d
       \<and> (fst (ValidDate_sanity P default_fmt (PStr s) c) = Inr PNone) = datetime_le d (c 0)
       \<and> snd (ValidDate_sanity P default_fmt (PStr s) c) = (\<lambda>n. c (Suc n))
       \<and> (datetime_lt (c 0) d \<longrightarrow>
            fst (schema_timestamp_sanity P sale c) =
              Inl (MultipleInvalid
                [Inv Invalid (Msg ''date is in the future! %s'' [PStr s]) [''timestamp'']]))
       \<and> (datetime_le d (c 0) \<longrightarrow>
            fst (schema_timestamp_sanity P sale c) = Inr (AList.update ''timestamp'' PNone sale))
       \<and> snd (schema_timestamp_sanity P sale c) = (\<lambda>n. c (Suc n))
       \<and> datetime_le d (c 0) = (\<not> datetime_lt (c 0) d)"
proof -
  have lt: "datetime_lt (c 0) d = (\<not> datetime_le d (c 0))" by (simp add: not_datetime_le)
  show ?thesis
    by (simp add: lt ValidDate_sanity_eq assms(3) schema_timestamp_sanity_eq [OF assms(1,2)])
qed

theorem future_date_rule_witness:
  "datetime_lt (frozen_clock july_2017 0) (Datetime 2999 1 1 0 0 0 0) \<and>
   fst (schema_timestamp_sanity strptime_example sale_1_future (frozen_clock july_2017)) =
     Inl (MultipleInvalid
       [Inv Invalid (Msg ''date is in the future! %s'' [PStr ''2999-01-01T00:00:00''])
          [''timestamp'']]) \<and>
   datetime_le (Datetime 2017 6 1 12 0 0 0) (clock_then july_2017 (frozen_clock year_3000) 0) \<and>
   fst (schema_timestamp_sanity strptime_example sale_500
          (clock_then july_2017 (frozen_clock year_3000))) =
     Inr [(''sale_amount'', PFloat (Finite 500)), (''timestamp'', PNone)] \<and>
   snd (schema_timestamp_sanity strptime_example sale_500
          (clock_then july_2017 (frozen_clock year_3000))) 0 = year_3000"
  using future_date_rule [of sale_1_future "''2999-01-01T00:00:00''" strptime_example
          "Datetime 2999 1 1 0 0 0 0" "frozen_clock july_2017"]
        future_date_rule [of sale_500 "''2017-06-01T12:00:00''" strptime_example
          "Datetime 2017 6 1 12 0 0 0" "clock_then july_2017 (frozen_clock year_3000)"]
  by (simp add: strptime_example_def default_fmt_def frozen_clock_def clock_then_def july_2017_def
        datetime_lt_def datetime_le_def sale_500_def sale_1_future_def)

text \<open>
  The specification words C2 with the current time as an injected input of the rule
  rather than a call of the clock. The rule has no such input. The same call, with the
  same format and the same timestamp, fails while the wall clock shows July 2017 and
  passes once it shows the year 3000; and the call takes a reading off the clock: on a
  clock that shows July 2017 and the year 3000 from then on, the reading left after the
  call is the year 3000.
\<close>

theorem current_time_is_read_from_clock:
  "fst (ValidDate_sanity strptime_example default_fmt (PStr ''2999-01-01T00:00:00'')
          (frozen_clock july_2017)) =
     Inl (InvalidExn
       (Inv Invalid (Msg ''date is in the future! %s'' [PStr ''2999-01-01T00:00:00'']) [])) \<and>
   fst (ValidDate_sanity strptime_example default_fmt (PStr ''2999-01-01T00:00:00'')
          (frozen_clock year_3000)) = Inr PNone \<and>
   clock_then july_2017 (frozen_clock year_3000) 0 = july_2017 \<and>
   snd (ValidDate_sanity strptime_example default_fmt (PStr ''2999-01-01T00:00:00'')
          (clock_then july_2017 (frozen_clock year_3000))) 0 = year_3000"
  by (simp add: ValidDate_sanity_eq strptime_example_def default_fmt_def frozen_clock_def
        clock_then_def july_2017_def year_3000_def datetime_le_def)

text \<open>
  C3. For a table of \<open>N\<close> rows of which exactly \<open>K\<close> have a \<^verbatim>\<open>sale_amount\<close> that
  violates the range rule, all others satisfying it, the loop over the whole table ends
  normally with the counter equal to \<open>K\<close>.
\<close>

theorem error_count_is_number_of_violations:
  assumes "\<forall>sale \<in> set (sales w). distinct (map fst sale) \<and> map_of sale ''sale_amount'' \<noteq> None"
    and "length (sales w) = N"
    and "length (filter (\<lambda>sale. \<not> satisfies_range_rule sale) (sales w)) = K"
  shows "fst (loop_sale_amount w) = Inr () \<and> error_count (snd (loop_sale_amount w)) = int K"
proof -
  have "\<forall>p \<in> set (to_dict_items (sales w)).
          distinct (map fst (snd p)) \<and> map_of (snd p) ''sale_amount'' \<noteq> None"
    using assms(1) set_to_dict_items by blast
  from for_sales_sale_amount [OF this, of "w\<lparr>error_count := 0\<rparr>"] assms(3)
  show ?thesis
    by (simp add: loop_sale_amount_def run_loop_def map_snd_to_dict_items)
qed

theorem error_count_is_number_of_violations_witness:
  "length (sales (notebook example_table (frozen_clock july_2017))) = 3 \<and>
   length (filter (\<lambda>sale. \<not> satisfies_range_rule sale)
      (sales (notebook example_table (frozen_clock july_2017)))) = 2 \<and>
   fst (loop_sale_amount (notebook example_table (frozen_clock july_2017))) = Inr () \<and>
   error_count (snd (loop_sale_amount (notebook example_table (frozen_clock july_2017)))) = 2"
proof -
  have h1: "\<forall>sale \<in> set (sales (notebook example_table (frozen_clock july_2017))).
              distinct (map fst sale) \<and> map_of sale ''sale_amount'' \<noteq> None"
    by (simp add: notebook_def example_table_def sale_500_def sale_1_future_def
          sale_2000_no_date_def)
  have h2: "length (sales (notebook example_table (frozen_clock july_2017))) = 3"
    by (simp add: notebook_def example_table_def)
  have h3: "length (filter (\<lambda>sale. \<not> satisfies_range_rule sale)
      (sales (notebook example_table (frozen_clock july_2017)))) = 2"
    by (simp add: notebook_def example_table_def satisfies_range_rule_def lit_2_50_def
          lit_1450_99_def sale_500_def sale_1_future_def sale_2000_no_date_def)
  from error_count_is_number_of_violations [OF h1 h2 h3] h2 h3 show ?thesis by simp
qed

text \<open>
  C4. For every row whose \<^verbatim>\<open>timestamp\<close> string does not parse under the configured
  format, both date rules fail with the error of a failed parse: \<^verbatim>\<open>strptime\<close> raises
  \<^verbatim>\<open>ValueError\<close>, which the schema reports as \<^verbatim>\<open>not a valid value\<close> at the
  \<^verbatim>\<open>timestamp\<close> field; it is never the future-date message.
\<close>

theorem unparsable_timestamp_message:
  assumes "distinct (map fst sale)" and "map_of sale ''timestamp'' = Some (PStr s)"
    and "P s default_fmt = None"
  shows "fst (ValidDate_format P default_fmt (PStr s) c) = Inl ValueError
       \<and> fst (ValidDate_sanity P default_fmt (PStr s) c) = Inl ValueError
       \<and> fst (schema_timestamp_format P sale c) =
           Inl (MultipleInvalid [Inv ValueInvalid (Msg ''not a valid value'' []) [''timestamp'']])
       \<and> fst (schema_timestamp_sanity P sale c) =
           Inl (MultipleInvalid [Inv ValueInvalid (Msg ''not a valid value'' []) [''timestamp'']])
       \<and> (\<forall>v. Msg ''not a valid value'' [] \<noteq> Msg ''date is in the future! %s'' [v])"
  by (simp add: ValidDate_format_def datetime_strptime_def ValidDate_sanity_eq assms(3)
        schema_timestamp_format_eq [OF assms(1,2)] schema_timestamp_sanity_eq [OF assms(1,2)])

theorem unparsable_timestamp_message_witness:
  "strptime_example ''yesterday'' default_fmt = None \<and>
   fst (schema_timestamp_format strptime_example sale_2000_no_date (frozen_clock july_2017)) =
     Inl (MultipleInvalid [Inv ValueInvalid (Msg ''not a valid value'' []) [''timestamp'']]) \<and>
   fst (schema_timestamp_sanity strptime_example sale_2000_no_date (frozen_clock july_2017)) =
     Inl (MultipleInvalid [Inv ValueInvalid (Msg ''not a valid value'' []) [''timestamp'']])"
  using unparsable_timestamp_message [of sale_2000_no_date "''yesterday''" strptime_example
          "frozen_clock july_2017"]
  by (simp add: strptime_example_def sale_2000_no_date_def)

text \<open>
  C5. Every error kind, a missing required field among them, is to be caught, logged and
  counted by the loop without ending the run. On a table that has no \<^verbatim>\<open>sale_amount\<close>
  column the schema does report the missing field, but the handler's
  \<^verbatim>\<open>sale['sale_amount']\<close> raises \<^verbatim>\<open>KeyError\<close>: the loop ends with that exception and
  nothing has been counted.
\<close>

theorem missing_field_ends_loop:
  "fst (schema_sale_amount sale_no_amount (frozen_clock july_2017)) =
     Inl (MultipleInvalid
       [Inv RequiredFieldInvalid (Msg ''required key not provided'' []) [''sale_amount'']]) \<and>
   fst (loop_sale_amount (notebook [sale_no_amount] (frozen_clock july_2017))) =
     Inl (KeyError ''sale_amount'') \<and>
   error_count (snd (loop_sale_amount (notebook [sale_no_amount] (frozen_clock july_2017)))) = 0"
  by (simp add: loop_sale_amount_def run_loop_def to_dict_items_def notebook_def loop_body_def
        schema_sale_amount_def Schema_no_key sale_no_amount_def)

text \<open>
  C6. Every row after a failing row is to be validated still. On a table whose first row
  has no timestamp (NaN, as an empty cell is read) and whose second row is dated in the
  future, \<^verbatim>\<open>strptime\<close> raises \<^verbatim>\<open>TypeError\<close> at the first row, nothing catches it, and
  the loop ends there with nothing logged or counted; the second row, which alone is
  counted, is never reached. In the same way the first loop ends at the first row of a
  table without the \<^verbatim>\<open>sale_amount\<close> column, whatever rows follow.
\<close>

theorem type_error_skips_later_rows:
  "(\<forall>P. fst (loop_timestamp_sanity P
              (notebook [sale_nan_timestamp, sale_1_future] (frozen_clock july_2017))) =
           Inl TypeError
       \<and> error_count (snd (loop_timestamp_sanity P
              (notebook [sale_nan_timestamp, sale_1_future] (frozen_clock july_2017)))) = 0
       \<and> warnings (snd (loop_timestamp_sanity P
              (notebook [sale_nan_timestamp, sale_1_future] (frozen_clock july_2017)))) = [])
   \<and> fst (loop_timestamp_sanity strptime_example
              (notebook [sale_1_future] (frozen_clock july_2017))) = Inr ()
   \<and> error_count (snd (loop_timestamp_sanity strptime_example
              (notebook [sale_1_future] (frozen_clock july_2017)))) = 1
   \<and> (\<forall>rest c. fst (loop_sale_amount (notebook (sale_no_amount # rest) c)) =
         Inl (KeyError ''sale_amount''))"
proof (intro conjI allI)
  fix P
  show "fst (loop_timestamp_sanity P
              (notebook [sale_nan_timestamp, sale_1_future] (frozen_clock july_2017))) =
           Inl TypeError"
    and "error_count (snd (loop_timestamp_sanity P
              (notebook [sale_nan_timestamp, sale_1_future] (frozen_clock july_2017)))) = 0"
    and "warnings (snd (loop_timestamp_sanity P
              (notebook [sale_nan_timestamp, sale_1_future] (frozen_clock july_2017)))) = []"
    by (simp_all add: loop_timestamp_sanity_def run_loop_def to_dict_items_def notebook_def
          loop_body_def schema_timestamp_sanity_def Schema_key sanity_rule_eq
          sale_nan_timestamp_def)
next
  show "fst (loop_timestamp_sanity strptime_example
              (notebook [sale_1_future] (frozen_clock july_2017))) = Inr ()"
    and "error_count (snd (loop_timestamp_sanity strptime_example
              (notebook [sale_1_future] (frozen_clock july_2017)))) = 1"
    by (simp_all add: loop_timestamp_sanity_def run_loop_def to_dict_items_def notebook_def
          loop_body_def schema_timestamp_sanity_def Schema_key sanity_rule_eq strptime_example_def
          default_fmt_def frozen_clock_def july_2017_def datetime_le_def logging_warning_def
          sale_1_future_def)
next
  fix rest c
  show "fst (loop_sale_amount (notebook (sale_no_amount # rest) c)) = Inl (KeyError ''sale_amount'')"
    by (simp add: loop_sale_amount_def run_loop_def to_dict_items_def notebook_def upt_conv_Cons
          loop_body_def schema_sale_amount_def Schema_no_key sale_no_amount_def del: upt_Suc)
qed

text \<open>
  C7. No validation loop mutates, creates or destroys a row: after each of the three
  loops, however it ends, the table is the table it started with.
\<close>

theorem loops_leave_table_unchanged:
  "sales (snd (loop_sale_amount w)) = sales w \<and>
   sales (snd (loop_timestamp_format P w)) = sales w \<and>
   sales (snd (loop_timestamp_sanity P w)) = sales w"
  by (simp add: loop_sale_amount_def loop_timestamp_format_def loop_timestamp_sanity_def sales_run_loop)

text \<open>
  C8. The future-date check is a function of the row and the current time: two runs whose
  clocks show the same time at the reading the check makes have the same outcome,
  whatever the clocks show afterwards; and there is a row, and a table, on which two
  different current times give different outcomes and different counts.
\<close>

theorem future_check_reads_clock_once:
  "(\<forall>P fmt v c1 c2. fst (datetime_now c1) = fst (datetime_now c2) \<longrightarrow>
      fst (ValidDate_sanity P fmt v c1) = fst (ValidDate_sanity P fmt v c2))
   \<and> (\<forall>P sale c1 c2. distinct (map fst sale) \<and> fst (datetime_now c1) = fst (datetime_now c2) \<longrightarrow>
      fst (schema_timestamp_sanity P sale c1) = fst (schema_timestamp_sanity P sale c2))
   \<and> (\<exists>sale c1 c2. fst (schema_timestamp_sanity strptime_example sale c1) \<noteq>
                     fst (schema_timestamp_sanity strptime_example sale c2))
   \<and> (\<exists>tbl c1 c2. error_count (snd (loop_timestamp_sanity strptime_example (notebook tbl c1))) \<noteq>
                    error_count (snd (loop_timestamp_sanity strptime_example (notebook tbl c2))))"
proof (intro conjI allI impI)
  fix P fmt v and c1 c2 :: clock
  assume "fst (datetime_now c1) = fst (datetime_now c2)"
  then have "c1 0 = c2 0" by (simp add: datetime_now_def)
  then show "fst (ValidDate_sanity P fmt v c1) = fst (ValidDate_sanity P fmt v c2)"
    by (cases v) (simp_all add: ValidDate_sanity_eq split: option.splits)
next
  fix P and sale :: sale and c1 c2 :: clock
  assume "distinct (map fst sale) \<and> fst (datetime_now c1) = fst (datetime_now c2)"
  then have "distinct (map fst sale)" and "c1 0 = c2 0" by (simp_all add: datetime_now_def)
  then show "fst (schema_timestamp_sanity P sale c1) = fst (schema_timestamp_sanity P sale c2)"
    by (rule schema_sanity_first_reading)
next
  have "fst (schema_timestamp_sanity strptime_example sale_1_future (frozen_clock july_2017)) \<noteq>
        fst (schema_timestamp_sanity strptime_example sale_1_future (frozen_clock year_3000))"
    by (simp add: schema_timestamp_sanity_eq strptime_example_def default_fmt_def frozen_clock_def
          july_2017_def year_3000_def datetime_le_def sale_1_future_def)
  then show "\<exists>sale c1 c2. fst (schema_timestamp_sanity strptime_example sale c1) \<noteq>
                     fst (schema_timestamp_sanity strptime_example sale c2)"
    by blast
next
  have "error_count (snd (loop_timestamp_sanity strptime_example
           (notebook [sale_1_future] (frozen_clock july_2017)))) \<noteq>
        error_count (snd (loop_timestamp_sanity strptime_example
           (notebook [sale_1_future] (frozen_clock year_3000))))"
    by (simp add: loop_timestamp_sanity_def run_loop_def to_dict_items_def notebook_def loop_body_def
          schema_timestamp_sanity_eq strptime_example_def default_fmt_def frozen_clock_def
          july_2017_def year_3000_def datetime_le_def logging_warning_def sale_1_future_def)
  then show "\<exists>tbl c1 c2. error_count (snd (loop_timestamp_sanity strptime_example (notebook tbl c1))) \<noteq>
                    error_count (snd (loop_timestamp_sanity strptime_example (notebook tbl c2)))"
    by blast
qed

theorem future_check_reads_clock_once_witness:
  "fst (datetime_now (frozen_clock july_2017)) =
     fst (datetime_now (clock_then july_2017 (frozen_clock year_3000))) \<and>
   fst (schema_timestamp_sanity strptime_example sale_1_future (frozen_clock july_2017)) =
   fst (schema_timestamp_sanity strptime_example sale_1_future
          (clock_then july_2017 (frozen_clock year_3000)))"
proof -
  have h: "distinct (map fst sale_1_future) \<and>
           fst (datetime_now (frozen_clock july_2017)) =
           fst (datetime_now (clock_then july_2017 (frozen_clock year_3000)))"
    by (simp add: datetime_now_def frozen_clock_def clock_then_def sale_1_future_def)
  from future_check_reads_clock_once
  have "\<forall>P sale c1 c2. distinct (map fst sale) \<and> fst (datetime_now c1) = fst (datetime_now c2) \<longrightarrow>
      fst (schema_timestamp_sanity P sale c1) = fst (schema_timestamp_sanity P sale c2)"
    by (rule conjunct2 [THEN conjunct1])
  with h show ?thesis by blast
qed

text \<open>
  C9. Every failing row is to produce exactly one warning. A row without the
  \<^verbatim>\<open>timestamp\<close> field fails the schema (the required key is not provided), yet the loop
  logs nothing for it: building the log call raises \<^verbatim>\<open>KeyError\<close>.
\<close>

theorem missing_field_not_logged:
  "\<forall>P. fst (schema_timestamp_sanity P sale_no_timestamp (frozen_clock july_2017)) =
         Inl (MultipleInvalid
           [Inv RequiredFieldInvalid (Msg ''required key not provided'' []) [''timestamp'']]) \<and>
       warnings (snd (loop_timestamp_sanity P
              (notebook [sale_no_timestamp] (frozen_clock july_2017)))) = [] \<and>
       fst (loop_timestamp_sanity P (notebook [sale_no_timestamp] (frozen_clock july_2017))) =
         Inl (KeyError ''timestamp'')"
  by (simp add: loop_timestamp_sanity_def run_loop_def to_dict_items_def notebook_def loop_body_def
        schema_timestamp_sanity_def Schema_no_key sale_no_timestamp_def)

text \<open>
  C10. With \<^verbatim>\<open>extra=ALLOW_EXTRA\<close>, a row that holds the required field with a value
  satisfying the rule passes each of the three schemas whatever other fields it holds;
  the other fields are copied to the output unchanged.
\<close>

theorem extra_fields_ignored:
  assumes "distinct (map fst sale)"
  shows "(map_of sale ''sale_amount'' = Some (PFloat f) \<and> in_interval f \<longrightarrow>
            fst (schema_sale_amount sale c) = Inr sale)
       \<and> (map_of sale ''timestamp'' = Some (PStr s) \<and> P s default_fmt = Some d \<longrightarrow>
            fst (schema_timestamp_format P sale c) =
              Inr (AList.update ''timestamp'' (PDatetime d) sale))
       \<and> (map_of sale ''timestamp'' = Some (PStr s) \<and> P s default_fmt = Some d \<and>
            datetime_le d (fst (datetime_now c)) \<longrightarrow>
            fst (schema_timestamp_sanity P sale c) = Inr (AList.update ''timestamp'' PNone sale))"
  using assms
  by (auto simp: schema_sale_amount_ok schema_timestamp_format_eq schema_timestamp_sanity_eq
        datetime_now_def)

theorem extra_fields_ignored_witness:
  "fst (schema_sale_amount sale_extra (frozen_clock july_2017)) = Inr sale_extra \<and>
   fst (schema_timestamp_format strptime_example sale_extra (frozen_clock july_2017)) =
     Inr [(''customer'', PStr ''x''), (''sale_amount'', PFloat (Finite 500)), (''quantity'', PInt (- 3)),
          (''timestamp'', PDatetime (Datetime 2017 6 1 12 0 0 0)), (''note'', PNone)] \<and>
   fst (schema_timestamp_sanity strptime_example sale_extra (frozen_clock july_2017)) =
     Inr [(''customer'', PStr ''x''), (''sale_amount'', PFloat (Finite 500)), (''quantity'', PInt (- 3)),
          (''timestamp'', PNone), (''note'', PNone)]"
  using extra_fields_ignored [of sale_extra "Finite 500" "frozen_clock july_2017"
          "''2017-06-01T12:00:00''" strptime_example "Datetime 2017 6 1 12 0 0 0"]
  by (simp add: lit_2_50_def lit_1450_99_def strptime_example_def default_fmt_def datetime_now_def
        frozen_clock_def july_2017_def datetime_le_def sale_extra_def)

end
